theory Spec2Isabelle
  imports Complex_Main "HOL-Library.List_Lexorder" "HOL-Library.Sublist" "HOL-Library.AList"
begin

section \<open>Strings\<close>

text \<open>
  A Python \<open>str\<close> is a sequence of Unicode code points. It is modelled as a list of
  natural numbers, one per code point, so that the character classes of the regular
  expressions below range over all of Unicode and not only over one byte. The lexicographic
  order on lists (of \<open>HOL-Library.List_Lexorder\<close>) is the order Python's \<open>sorted\<close> uses on
  strings. \<open>py\<close> turns a literal of the theory into such a string.
\<close>

type_synonym pystr = "nat list"

definition py :: "string \<Rightarrow> pystr" where
  "py s = map of_char s"

text \<open>\<open>sep.join(parts)\<close>.\<close>

fun join :: "pystr \<Rightarrow> pystr list \<Rightarrow> pystr" where
  "join sep [] = []"
| "join sep [p] = p"
| "join sep (p # q # ps) = p @ sep @ join sep (q # ps)"

text \<open>
  The characters that \<open>\s\<close> matches in a \<open>str\<close> pattern, which are also the ones
  \<open>str.strip()\<close> removes: tab to carriage return, the four separators U+001C to U+001F,
  space, U+0085, U+00A0, U+1680, U+2000 to U+200A, U+2028, U+2029, U+202F, U+205F, U+3000.
\<close>

definition is_space :: "nat \<Rightarrow> bool" where
  "is_space c \<longleftrightarrow>
     (9 \<le> c \<and> c \<le> 13) \<or> (28 \<le> c \<and> c \<le> 32) \<or> c = 133 \<or> c = 160 \<or> c = 5760 \<or>
     (8192 \<le> c \<and> c \<le> 8202) \<or> c = 8232 \<or> c = 8233 \<or> c = 8239 \<or> c = 8287 \<or>
     c = 12288"

text \<open>The class \<open>[\x00-\x08\x0b-\x0c\x0e-\x1f\x7f-\x9f]\<close> of \<open>clean_text\<close>.\<close>

definition is_control :: "nat \<Rightarrow> bool" where
  "is_control c \<longleftrightarrow>
     c \<le> 8 \<or> (11 \<le> c \<and> c \<le> 12) \<or> (14 \<le> c \<and> c \<le> 31) \<or> (127 \<le> c \<and> c \<le> 159)"

text \<open>
  \<open>re.sub(r'\s+', ' ', text)\<close>: scanning from the left, every maximal run of white space
  is replaced by one space.
\<close>

function sub_spaces :: "pystr \<Rightarrow> pystr" where
  "sub_spaces [] = []"
| "sub_spaces (c # cs) =
     (if is_space c then 32 # sub_spaces (dropWhile is_space cs) else c # sub_spaces cs)"
  by pat_completeness auto
termination
  by (relation "measure length") (auto simp: le_imp_less_Suc length_dropWhile_le)

text \<open>\<open>text.strip()\<close>.\<close>

definition strip :: "pystr \<Rightarrow> pystr" where
  "strip s = rev (dropWhile is_space (rev (dropWhile is_space s)))"

section \<open>helpers.py\<close>

definition clean_text :: "pystr \<Rightarrow> pystr" where
  "clean_text text =
     (let text = sub_spaces text;
          text = filter (\<lambda>c. \<not> is_control c) text;
          text = strip text
      in text)"

text \<open>
  \<open>str(n)\<close> for a natural number, and \<open>f"{n:03d}"\<close>: the decimal digits, padded with
  zeros on the left to three characters.
\<close>

fun str_nat :: "nat \<Rightarrow> pystr" where
  "str_nat n = (if n < 10 then [48 + n] else str_nat (n div 10) @ [48 + n mod 10])"

declare str_nat.simps [simp del]

definition fmt_03d :: "nat \<Rightarrow> pystr" where
  "fmt_03d n = (let s = str_nat n in replicate (3 - length s) 48 @ s)"

definition generate_test_id :: "nat \<Rightarrow> pystr" where
  "generate_test_id index = py ''TC-'' @ fmt_03d index"

text \<open>
  \<open>generate_chunk_id\<close>. The digest \<open>hashlib.md5(text.encode()).hexdigest()\<close> is the
  library's; it enters as the function \<open>md5_hex\<close> from the text to its hexadecimal digest.
\<close>

definition generate_chunk_id :: "(pystr \<Rightarrow> pystr) \<Rightarrow> pystr \<Rightarrow> nat \<Rightarrow> pystr" where
  "generate_chunk_id md5_hex text index =
     (let text_hash = take 8 (md5_hex text)
      in py ''chunk_'' @ str_nat index @ py ''_'' @ text_hash)"

section \<open>JSON values and the reply of the model\<close>

text \<open>
  The values \<open>json.loads\<close> returns: \<open>None\<close>, a \<open>bool\<close>, an \<open>int\<close>, a \<open>float\<close> (taken as
  the real number it stands for), a \<open>str\<close>, a \<open>list\<close>, and a \<open>dict\<close> as the list of its
  items, read by \<open>map_of\<close> and written by \<open>AList.update\<close>.
\<close>

datatype json =
    JNull
  | JBool bool
  | JInt int
  | JFloat real
  | JString pystr
  | JArray "json list"
  | JObject "(pystr \<times> json) list"

text \<open>Python's truth value of such a value: what \<open>not x\<close> and \<open>if x\<close> test.\<close>

fun truthy :: "json \<Rightarrow> bool" where
  "truthy JNull = False"
| "truthy (JBool b) = b"
| "truthy (JInt i) = (i \<noteq> 0)"
| "truthy (JFloat x) = (x \<noteq> 0)"
| "truthy (JString s) = (s \<noteq> [])"
| "truthy (JArray xs) = (xs \<noteq> [])"
| "truthy (JObject kvs) = (kvs \<noteq> [])"

text \<open>
  \<open>re.search(r'```json\s*(.*?)\s*```', response_text, re.DOTALL)\<close>, group 1. The search
  takes the leftmost position where the pattern matches. There, after the opening fence,
  \<open>\s*\<close> takes the whole run of white space, and the lazy group grows one character at a
  time until what follows is white space and a closing fence (\<open>closes\<close>).
\<close>

definition closes :: "pystr \<Rightarrow> bool" where
  "closes s = prefix (py ''```'') (dropWhile is_space s)"

fun lazy_group :: "pystr \<Rightarrow> pystr option" where
  "lazy_group [] = None"
| "lazy_group (c # cs) =
     (if closes (c # cs) then Some [] else map_option ((#) c) (lazy_group cs))"

fun fenced_json :: "pystr \<Rightarrow> pystr option" where
  "fenced_json [] = None"
| "fenced_json (c # cs) =
     (if prefix (py ''```json'') (c # cs)
      then (case lazy_group (dropWhile is_space (drop 7 (c # cs))) of
              Some g \<Rightarrow> Some g
            | None \<Rightarrow> fenced_json cs)
      else fenced_json cs)"

text \<open>
  \<open>re.search(r'\[.*\]', response_text, re.DOTALL)\<close>, group 0: from the leftmost \<open>[\<close> that
  has a \<open>]\<close> after it to the last \<open>]\<close> of the text (the star is greedy). \<open>[\<close> is code point
  91 and \<open>]\<close> is 93.
\<close>

definition upto_last :: "nat \<Rightarrow> pystr \<Rightarrow> pystr" where
  "upto_last c s = rev (dropWhile (\<lambda>x. x \<noteq> c) (rev s))"

fun bracket_array :: "pystr \<Rightarrow> pystr option" where
  "bracket_array [] = None"
| "bracket_array (c # cs) =
     (if c = 91 \<and> 93 \<in> set cs then Some (c # upto_last 93 cs) else bracket_array cs)"

section \<open>test\_case\_agent.py\<close>

text \<open>
  \<open>_extract_json_from_response\<close>. \<open>json_candidate\<close> is the \<open>json_str\<close> it picks: group 1 of
  the fenced pattern if that matches, else the bracketed text if that matches, else the
  whole reply. \<open>json.loads\<close> is the library's parser and enters as the function
  \<open>json_loads\<close>, \<open>None\<close> when it raises \<open>JSONDecodeError\<close>; the result \<open>None\<close> of the
  extraction is the \<open>return None\<close> of that handler.
\<close>

definition json_candidate :: "pystr \<Rightarrow> pystr" where
  "json_candidate response_text =
     (case fenced_json response_text of
        Some g \<Rightarrow> g
      | None \<Rightarrow>
          (case bracket_array response_text of
             Some g \<Rightarrow> g
           | None \<Rightarrow> response_text))"

fun promote :: "json \<Rightarrow> json" where
  "promote (JObject kvs) = JArray [JObject kvs]"
| "promote data = data"

definition extract_json_from_response :: "(pystr \<Rightarrow> json option) \<Rightarrow> pystr \<Rightarrow> json option" where
  "extract_json_from_response json_loads response_text =
     (case json_loads (json_candidate response_text) of
        None \<Rightarrow> None
      | Some data \<Rightarrow> Some (promote data))"

text \<open>
  A match as \<open>VectorStore.query\<close> returns it (\<open>text'\<close> is its key \<open>text\<close>), and the two
  keys of the dictionary \<open>rag_query\<close> returns that the agent reads. The metadata of a chunk
  is the dictionary \<open>create_metadata_dict\<close> builds in \<open>add_documents\<close>;
  \<open>md_source_document\<close> is \<open>None\<close> when the key is absent.
\<close>

record metadata =
  md_source_document :: "pystr option"
  md_chunk_index :: nat
  md_total_chunks :: nat
  md_file_type :: pystr
  md_file_size :: nat

record retrieved =
  text' :: pystr
  metadata :: metadata
  score :: real
  source_document :: pystr

record rag_result =
  response :: pystr
  retrieved_chunks :: "retrieved list"

definition infer_source_documents :: "retrieved list \<Rightarrow> pystr" where
  "infer_source_documents chunks =
     (if chunks = [] then py ''documentation''
      else
        (let sources = remdups (filter (\<lambda>source. source \<noteq> []) (map source_document (take 3 chunks)))
         in if sources \<noteq> [] then join (py '', '') (sort sources) else py ''documentation''))"

record test_case =
  test_id :: pystr
  feature :: pystr
  test_scenario :: pystr
  test_type :: pystr
  preconditions :: pystr
  test_steps :: "pystr list"
  expected_result :: pystr
  grounded_in :: pystr

record test_case_response =
  success :: bool
  message :: pystr
  test_cases :: "test_case list"
  total_cases :: nat

datatype error =
  TypeError | ValidationError | IndexError | ValueError | DuplicateIDError | EmbeddingError

definition get_str :: "(pystr \<times> json) list \<Rightarrow> pystr \<Rightarrow> pystr option" where
  "get_str d k = (case map_of d k of Some (JString s) \<Rightarrow> Some s | _ \<Rightarrow> None)"

fun the_strings :: "json list \<Rightarrow> pystr list option" where
  "the_strings [] = Some []"
| "the_strings (JString s # xs) = map_option ((#) s) (the_strings xs)"
| "the_strings (_ # xs) = None"

definition get_strs :: "(pystr \<times> json) list \<Rightarrow> pystr \<Rightarrow> pystr list option" where
  "get_strs d k = (case map_of d k of Some (JArray xs) \<Rightarrow> the_strings xs | _ \<Rightarrow> None)"

text \<open>
  Modelled from the spec: the \<open>TestCase\<close> model of \<open>backend/models.py\<close>, which
  \<open>TestCase(**tc_data)\<close> builds and validates and which is not among the sources. By the
  data model of the specification a test case has an id, a feature, a scenario, a type among
  \<open>positive\<close>, \<open>negative\<close> and \<open>edge_case\<close>, preconditions, ordered steps, an expected result
  and its grounding; the field names are those of the system prompt of the agent. An item
  lacking one of them, or holding a value of another type, fails validation. The text of
  \<open>grounded_in\<close> is not looked at here.
\<close>

definition TestCase :: "(pystr \<times> json) list \<Rightarrow> error + test_case" where
  "TestCase d =
     (case
        Option.bind (get_str d (py ''test_id'')) (\<lambda>a.
        Option.bind (get_str d (py ''feature'')) (\<lambda>b.
        Option.bind (get_str d (py ''test_scenario'')) (\<lambda>c.
        Option.bind (get_str d (py ''test_type'')) (\<lambda>t.
        Option.bind (get_str d (py ''preconditions'')) (\<lambda>p.
        Option.bind (get_strs d (py ''test_steps'')) (\<lambda>ss.
        Option.bind (get_str d (py ''expected_result'')) (\<lambda>e.
        Option.bind (get_str d (py ''grounded_in'')) (\<lambda>g.
          Some \<lparr>test_id = a, feature = b, test_scenario = c, test_type = t,
                preconditions = p, test_steps = ss, expected_result = e,
                grounded_in = g\<rparr>))))))))
      of
        None \<Rightarrow> Inl ValidationError
      | Some tc \<Rightarrow>
          if test_type tc \<in> set [py ''positive'', py ''negative'', py ''edge_case'']
          then Inr tc else Inl ValidationError)"

text \<open>
  The body of the loop of \<open>generate_test_cases\<close> on one item. On an item that is not a
  dictionary the membership test or the item assignment raises (\<open>TypeError\<close>), whatever the
  item holds, and the item is skipped like one that fails validation.
\<close>

definition fill_test_id :: "nat \<Rightarrow> (pystr \<times> json) list \<Rightarrow> (pystr \<times> json) list" where
  "fill_test_id i tc_data =
     (if map_of tc_data (py ''test_id'') = None
      then AList.update (py ''test_id'') (JString (generate_test_id (i + 1))) tc_data
      else tc_data)"

definition needs_grounding :: "(pystr \<times> json) list \<Rightarrow> bool" where
  "needs_grounding tc_data =
     (case map_of tc_data (py ''grounded_in'') of None \<Rightarrow> True | Some v \<Rightarrow> \<not> truthy v)"

definition fill_grounded_in :: "retrieved list \<Rightarrow> (pystr \<times> json) list \<Rightarrow> (pystr \<times> json) list" where
  "fill_grounded_in chunks tc_data =
     (if needs_grounding tc_data
      then AList.update (py ''grounded_in'') (JString (infer_source_documents chunks)) tc_data
      else tc_data)"

fun convert_item :: "retrieved list \<Rightarrow> nat \<Rightarrow> json \<Rightarrow> error + test_case" where
  "convert_item chunks i (JObject tc_data) = TestCase (fill_grounded_in chunks (fill_test_id i tc_data))"
| "convert_item chunks i _ = Inl TypeError"

definition convert_items :: "retrieved list \<Rightarrow> json list \<Rightarrow> test_case list" where
  "convert_items chunks items =
     concat (map (\<lambda>(i, tc_data). case convert_item chunks i tc_data of
                                   Inr test_case \<Rightarrow> [test_case]
                                 | Inl e \<Rightarrow> [])
                 (enumerate 0 items))"

text \<open>
  What \<open>enumerate(test_cases_data)\<close> runs over: the elements of a list, the characters of
  a string, the keys of a dictionary; a number or a boolean is not iterable, and the
  \<open>TypeError\<close> (here with its text) goes to the outer handler.
\<close>

definition not_iterable :: "string \<Rightarrow> pystr" where
  "not_iterable ty = [39] @ py ty @ [39] @ py '' object is not iterable''"

fun iterate :: "json \<Rightarrow> pystr + json list" where
  "iterate (JArray xs) = Inr xs"
| "iterate (JString s) = Inr (map (\<lambda>c. JString [c]) s)"
| "iterate (JObject kvs) = Inr (map (\<lambda>(k, v). JString k) kvs)"
| "iterate JNull = Inl (not_iterable ''NoneType'')"
| "iterate (JBool b) = Inl (not_iterable ''bool'')"
| "iterate (JInt i) = Inl (not_iterable ''int'')"
| "iterate (JFloat x) = Inl (not_iterable ''float'')"

definition failure :: "pystr \<Rightarrow> test_case_response" where
  "failure msg = \<lparr>success = False, message = msg, test_cases = [], total_cases = 0\<rparr>"

text \<open>
  \<open>generate_test_cases\<close>. The call \<open>rag_service.rag_query\<close> (retrieval and the chat
  completion, with the fixed system prompt, eight results and temperature 0.1) enters as
  the function \<open>rag_query\<close> of the enhanced query: \<open>Inr\<close> its result, or \<open>Inl\<close> the text of
  the exception it raises. Every exception raised inside the body ends in the outer handler.
\<close>

definition enhanced_query :: "pystr \<Rightarrow> bool \<Rightarrow> pystr" where
  "enhanced_query user_query include_negative =
     (if include_negative
      then user_query @ py '' Include both positive and negative test scenarios.''
      else user_query)"

definition generate_test_cases ::
  "(pystr \<Rightarrow> json option) \<Rightarrow> (pystr \<Rightarrow> pystr + rag_result) \<Rightarrow> pystr \<Rightarrow> bool \<Rightarrow> test_case_response" where
  "generate_test_cases json_loads rag_query user_query include_negative =
     (case rag_query (enhanced_query user_query include_negative) of
        Inl e \<Rightarrow> failure (py ''Error generating test cases: '' @ e)
      | Inr rag_result \<Rightarrow>
          (case extract_json_from_response json_loads (response rag_result) of
             None \<Rightarrow> failure (py ''Failed to parse test cases from LLM response'')
           | Some test_cases_data \<Rightarrow>
               if \<not> truthy test_cases_data
               then failure (py ''Failed to parse test cases from LLM response'')
               else
                 (case iterate test_cases_data of
                    Inl e \<Rightarrow> failure (py ''Error generating test cases: '' @ e)
                  | Inr items \<Rightarrow>
                      (let cases = convert_items (retrieved_chunks rag_result) items
                       in if cases = [] then failure (py ''No valid test cases generated'')
                          else \<lparr>success = True,
                                message = py ''Generated '' @ str_nat (length cases) @ py '' test cases'',
                                test_cases = cases,
                                total_cases = length cases\<rparr>))))"

section \<open>vector\_store.py\<close>

text \<open>
  A document as \<open>add_documents\<close> receives it: a dictionary with the keys \<open>content\<close> and
  \<open>metadata\<close> (here \<open>doc_content\<close> and \<open>doc_metadata\<close>), the latter with \<open>filename\<close>,
  \<open>file_type\<close> and \<open>file_size\<close>; \<open>None\<close> is an absent key (or, for the content, the value
  \<open>None\<close>).
\<close>

record doc_metadata =
  filename :: "pystr option"
  file_type :: "pystr option"
  file_size :: "nat option"

record document =
  doc_content :: "pystr option"
  doc_metadata :: "doc_metadata option"

definition create_metadata_dict :: "pystr \<Rightarrow> nat \<Rightarrow> nat \<Rightarrow> pystr \<Rightarrow> nat \<Rightarrow> metadata" where
  "create_metadata_dict source chunk_index total_chunks ftype fsize =
     \<lparr>md_source_document = Some source, md_chunk_index = chunk_index,
      md_total_chunks = total_chunks, md_file_type = ftype, md_file_size = fsize\<rparr>"

text \<open>
  The rows one document adds to \<open>all_ids\<close>, \<open>all_chunks\<close> and \<open>all_metadatas\<close>: the body of
  the loop over the documents. A document with no content, or an empty one, is skipped. The
  text splitter is the library's and enters as the function \<open>split_text\<close>.
\<close>

definition doc_rows ::
  "(pystr \<Rightarrow> pystr) \<Rightarrow> (pystr \<Rightarrow> pystr list) \<Rightarrow> document \<Rightarrow> (pystr \<times> pystr \<times> metadata) list" where
  "doc_rows md5_hex split_text doc =
     (case doc_content doc of
        None \<Rightarrow> []
      | Some c \<Rightarrow>
          if c = [] then []
          else
            (let m = (case doc_metadata doc of
                        None \<Rightarrow> \<lparr>filename = None, file_type = None, file_size = None\<rparr>
                      | Some m \<Rightarrow> m);
                 name = (case filename m of None \<Rightarrow> py ''unknown'' | Some f \<Rightarrow> f);
                 chunks = split_text c
             in map (\<lambda>(i, chunk).
                      (generate_chunk_id md5_hex chunk i, chunk,
                       create_metadata_dict name i (length chunks)
                         (case file_type m of None \<Rightarrow> [] | Some t \<Rightarrow> t)
                         (case file_size m of None \<Rightarrow> 0 | Some n \<Rightarrow> n)))
                    (enumerate 0 chunks)))"

text \<open>
  The collection of the vector database is outside the repository. It is modelled by what
  the code relies on: a store of entries in insertion order, keyed by their ids. \<open>add\<close>
  takes four lists of one length, refuses a batch that repeats an id, and never makes a
  second entry for an id that is stored: the database either keeps the stored entry or
  replaces it, and which of the two is the parameter \<open>on_existing\<close>. \<open>count\<close> is the
  number of entries, \<open>get(limit=n)\<close> returns the first \<open>n\<close> of them, and \<open>query\<close> the
  \<open>n\<close> entries nearest to the query embedding among those the filter admits, the distance
  being the function \<open>distance\<close>.
\<close>

record 'v entry =
  e_id :: pystr
  e_embedding :: 'v
  e_document :: pystr
  e_metadata :: metadata

type_synonym 'v collection = "'v entry list"

datatype on_existing = KeepStored | Overwrite

fun store_one :: "on_existing \<Rightarrow> 'v collection \<Rightarrow> 'v entry \<Rightarrow> 'v collection" where
  "store_one pol [] e = [e]"
| "store_one pol (x # xs) e =
     (if e_id x = e_id e then (case pol of KeepStored \<Rightarrow> x | Overwrite \<Rightarrow> e) # xs
      else x # store_one pol xs e)"

text \<open>
  An entry is settled in a store when storing it again changes nothing: under \<open>Overwrite\<close>
  the first entry with its id is the entry itself, under \<open>KeepStored\<close> some entry has its
  id.
\<close>

definition settled :: "on_existing \<Rightarrow> 'v collection \<Rightarrow> 'v entry \<Rightarrow> bool" where
  "settled pol c e =
     (case pol of
        KeepStored \<Rightarrow> find (\<lambda>x. e_id x = e_id e) c \<noteq> None
      | Overwrite \<Rightarrow> find (\<lambda>x. e_id x = e_id e) c = Some e)"

definition entries_of ::
  "pystr list \<Rightarrow> 'v list \<Rightarrow> pystr list \<Rightarrow> metadata list \<Rightarrow> 'v entry list" where
  "entries_of ids embeddings documents metadatas =
     map (\<lambda>(i, v, d, m). \<lparr>e_id = i, e_embedding = v, e_document = d, e_metadata = m\<rparr>)
         (zip ids (zip embeddings (zip documents metadatas)))"

definition collection_add ::
  "on_existing \<Rightarrow> 'v collection \<Rightarrow> pystr list \<Rightarrow> 'v list \<Rightarrow> pystr list \<Rightarrow> metadata list \<Rightarrow>
   error + 'v collection" where
  "collection_add pol c ids embeddings documents metadatas =
     (if length embeddings \<noteq> length ids \<or> length documents \<noteq> length ids \<or>
         length metadatas \<noteq> length ids
      then Inl ValueError
      else if \<not> distinct ids then Inl DuplicateIDError
      else Inr (foldl (store_one pol) c (entries_of ids embeddings documents metadatas)))"

record add_result =
  added :: bool
  add_message :: pystr
  added_chunks :: nat
  added_documents :: nat

text \<open>
  \<open>add_documents\<close>, from the collection before the call to the value returned (or the
  exception raised) and the collection after it. \<open>added\<close>, \<open>add_message\<close>, \<open>added_chunks\<close>
  and \<open>added_documents\<close> are the keys \<open>success\<close>, \<open>message\<close>, \<open>total_chunks\<close> and
  \<open>total_documents\<close>. \<open>embed_batch\<close> is the embedding service.
\<close>

definition add_documents ::
  "(pystr \<Rightarrow> pystr) \<Rightarrow> (pystr \<Rightarrow> pystr list) \<Rightarrow> (pystr list \<Rightarrow> error + 'v list) \<Rightarrow> on_existing \<Rightarrow>
   'v collection \<Rightarrow> document list \<Rightarrow> (error + add_result) \<times> 'v collection" where
  "add_documents md5_hex split_text embed_batch pol c docs =
     (let rows = concat (map (doc_rows md5_hex split_text) docs);
          all_ids = map (\<lambda>(i, chunk, m). i) rows;
          all_chunks = map (\<lambda>(i, chunk, m). chunk) rows;
          all_metadatas = map (\<lambda>(i, chunk, m). m) rows
      in if all_chunks = []
         then (Inr \<lparr>added = False, add_message = py ''No valid content to process'',
                    added_chunks = 0, added_documents = 0\<rparr>, c)
         else
           (case embed_batch all_chunks of
              Inl e \<Rightarrow> (Inl e, c)
            | Inr all_embeddings \<Rightarrow>
                (case collection_add pol c all_ids all_embeddings all_chunks all_metadatas of
                   Inl e \<Rightarrow> (Inl e, c)
                 | Inr c' \<Rightarrow>
                     (Inr \<lparr>added = True, add_message = py ''Documents added successfully'',
                           added_chunks = length all_chunks, added_documents = length docs\<rparr>,
                      c'))))"

record query_result =
  q_ids :: "pystr list list"
  q_documents :: "pystr list list"
  q_metadatas :: "metadata list list"
  q_distances :: "real list list"

definition collection_query ::
  "('v \<Rightarrow> 'v \<Rightarrow> real) \<Rightarrow> 'v collection \<Rightarrow> 'v \<Rightarrow> nat \<Rightarrow> (metadata \<Rightarrow> bool) \<Rightarrow> query_result" where
  "collection_query distance c query_embedding n_results wh =
     (let hits = take n_results
                   (sort_key (\<lambda>e. distance query_embedding (e_embedding e))
                      (filter (\<lambda>e. wh (e_metadata e)) c))
      in \<lparr>q_ids = [map e_id hits], q_documents = [map e_document hits],
          q_metadatas = [map e_metadata hits],
          q_distances = [map (\<lambda>e. distance query_embedding (e_embedding e)) hits]\<rparr>)"

text \<open>
  The formatting loop of \<open>query\<close>. \<open>item rows i\<close> is \<open>rows[0][i]\<close>, an \<open>IndexError\<close> when
  out of range; the loop stops at the first exception.
\<close>

definition item :: "'a list list \<Rightarrow> nat \<Rightarrow> 'a option" where
  "item rows i =
     (case rows of [] \<Rightarrow> None | r # rs \<Rightarrow> if i < length r then Some (r ! i) else None)"

definition match_at :: "query_result \<Rightarrow> nat \<Rightarrow> error + retrieved" where
  "match_at results i =
     (case item (q_documents results) i of
        None \<Rightarrow> Inl IndexError
      | Some d \<Rightarrow>
          (case item (q_metadatas results) i of
             None \<Rightarrow> Inl IndexError
           | Some m \<Rightarrow>
               (case item (q_distances results) i of
                  None \<Rightarrow> Inl IndexError
                | Some x \<Rightarrow>
                    Inr \<lparr>text' = d, metadata = m, score = 1 - x,
                         source_document =
                           (case md_source_document m of None \<Rightarrow> py ''unknown'' | Some s \<Rightarrow> s)\<rparr>)))"

fun collect :: "(error + 'a) list \<Rightarrow> error + 'a list" where
  "collect [] = Inr []"
| "collect (Inl e # rs) = Inl e"
| "collect (Inr x # rs) = (case collect rs of Inl e \<Rightarrow> Inl e | Inr xs \<Rightarrow> Inr (x # xs))"

definition format_results :: "query_result \<Rightarrow> error + retrieved list" where
  "format_results results =
     (case q_ids results of
        [] \<Rightarrow> Inr []
      | r # rs \<Rightarrow> if length r > 0 then collect (map (match_at results) [0..<length r]) else Inr [])"

definition TOP_K_RESULTS :: nat where
  "TOP_K_RESULTS = 5"

definition query ::
  "(pystr \<Rightarrow> error + 'v) \<Rightarrow> ('v \<Rightarrow> 'v \<Rightarrow> real) \<Rightarrow> 'v collection \<Rightarrow> pystr \<Rightarrow> nat option \<Rightarrow>
   (metadata \<Rightarrow> bool) \<Rightarrow> error + retrieved list" where
  "query embed_text distance c query_text n_results filter_dict =
     (let n = (case n_results of None \<Rightarrow> TOP_K_RESULTS | Some n \<Rightarrow> n)
      in case embed_text query_text of
           Inl e \<Rightarrow> Inl e
         | Inr query_embedding \<Rightarrow>
             format_results (collection_query distance c query_embedding n filter_dict))"

definition get_all_documents :: "'v collection \<Rightarrow> pystr list" where
  "get_all_documents c =
     (let metadatas = map e_metadata (take 10000 c);
          sources = remdups (filter (\<lambda>source. source \<noteq> [])
                               (List.map_filter md_source_document metadatas))
      in sort sources)"

definition clear_collection :: "'v collection \<Rightarrow> 'v collection" where
  "clear_collection c = []"

record stats =
  total_chunks :: nat
  total_documents :: nat
  collection_name :: pystr
  documents :: "pystr list"

definition get_stats :: "'v collection \<Rightarrow> stats" where
  "get_stats c =
     (let count = length c;
          docs = get_all_documents c
      in \<lparr>total_chunks = count, total_documents = length docs,
          collection_name = py ''qa_knowledge_base'', documents = docs\<rparr>)"

section \<open>rag\_service.py\<close>

text \<open>
  \<open>format_context\<close>. \<open>fmt_2f\<close> is the formatting \<open>f"{score:.2f}"\<close> of a float.
\<close>

definition format_context :: "(real \<Rightarrow> pystr) \<Rightarrow> retrieved list \<Rightarrow> pystr" where
  "format_context fmt_2f chunks =
     (if chunks = [] then py ''No relevant documentation found.''
      else join [10]
             (map (\<lambda>chunk. py ''=== From '' @ source_document chunk @ py '' (relevance: '' @
                            fmt_2f (score chunk) @ py '') ==='' @ [10] @ text' chunk @ [10])
                  chunks))"

section \<open>Sample values\<close>

text \<open>
  The values of \<open>json.loads\<close> on the three JSON texts used in the examples; it raises
  \<open>JSONDecodeError\<close> on the other texts the examples hand to it.
\<close>

definition sample_object :: pystr where
  \<open>sample_object = py ''{"feature": "f", "test_scenario": "s", "test_type": "positive", "preconditions": "p", "test_steps": ["s"], "expected_result": "e"}''\<close>

definition sample_dict :: "(pystr \<times> json) list" where
  "sample_dict =
     [(py ''feature'', JString (py ''f'')), (py ''test_scenario'', JString (py ''s'')),
      (py ''test_type'', JString (py ''positive'')), (py ''preconditions'', JString (py ''p'')),
      (py ''test_steps'', JArray [JString (py ''s'')]), (py ''expected_result'', JString (py ''e''))]"

definition sample_loads :: "pystr \<Rightarrow> json option" where
  \<open>sample_loads s =
     (if s = sample_object then Some (JObject sample_dict)
      else if s = py ''["s"]'' then Some (JArray [JString (py ''s'')])
      else if s = py ''[1]'' then Some (JArray [JInt 1])
      else None)\<close>

definition sample_match :: "string \<Rightarrow> retrieved" where
  "sample_match name =
     \<lparr>text' = py ''SAVE15: 15% discount'',
      metadata = \<lparr>md_source_document = Some (py name), md_chunk_index = 0, md_total_chunks = 1,
                  md_file_type = py ''md'', md_file_size = 20\<rparr>,
      score = 1 / 2,
      source_document = py name\<rparr>"

definition sample_chunks :: "retrieved list" where
  "sample_chunks = [sample_match ''b.md'', sample_match ''a.md'', sample_match ''b.md'', sample_match ''c.md'']"

definition replies :: "pystr \<Rightarrow> pystr \<Rightarrow> pystr + rag_result" where
  "replies reply q = Inr \<lparr>response = reply, retrieved_chunks = sample_chunks\<rparr>"

definition sample_reply :: pystr where
  "sample_reply = py ''```json'' @ [10] @ sample_object @ [10] @ py ''```''"

definition bare_reply :: pystr where
  "bare_reply = py ''```'' @ [10] @ sample_object @ [10] @ py ''```''"

definition mixed_reply :: pystr where
  "mixed_reply = py ''```json'' @ [10] @ py ''x'' @ [10] @ py ''``` [1]''"


text \<open>
  The documents named by all the chunks of a collection, in the words of the specification:
  the deduplicated, sorted \<open>source_document\<close> values across all stored chunks.
\<close>

definition all_source_documents :: "'v collection \<Rightarrow> pystr list" where
  "all_source_documents c = sort (remdups (List.map_filter md_source_document (map e_metadata c)))"

text \<open>
  Sample documents and stores. The digests are those of the texts \<open>hello\<close> and \<open>world\<close>;
  the splitter of the samples returns the text as its only chunk, and the embedding of the
  samples is the same vector for every text.
\<close>

definition sample_md5 :: "pystr \<Rightarrow> pystr" where
  "sample_md5 t =
     (if t = py ''hello'' then py ''5d41402abc4b2a76b9719d911017c592''
      else py ''7d793037a0760186574b0282f2f435e7'')"

definition sample_split :: "pystr \<Rightarrow> pystr list" where
  "sample_split t = [t]"

definition sample_embed_batch :: "pystr list \<Rightarrow> error + real list list" where
  "sample_embed_batch texts = Inr (map (\<lambda>t. [1, 0]) texts)"

definition sample_embed_text :: "pystr \<Rightarrow> error + real list" where
  "sample_embed_text t = Inr [1, 0]"

definition sample_doc :: "string \<Rightarrow> string \<Rightarrow> document" where
  "sample_doc name t =
     \<lparr>doc_content = Some (py t),
      doc_metadata = Some \<lparr>filename = Some (py name), file_type = Some (py ''md''),
                           file_size = Some 5\<rparr>\<rparr>"

definition sample_entry :: "string \<Rightarrow> nat \<Rightarrow> string \<Rightarrow> real list entry" where
  "sample_entry name i h =
     \<lparr>e_id = py ''chunk_'' @ str_nat i @ py ''_'' @ py h, e_embedding = [1, 0],
      e_document = py ''hello'',
      e_metadata = create_metadata_dict (py name) i 10000 (py ''md'') 5\<rparr>"

definition big_store :: "real list entry list" where
  "big_store =
     map (\<lambda>i. sample_entry ''a.md'' i ''5d41402a'') [0..<10000] @ [sample_entry ''b.md'' 0 ''7d793037'']"

definition unnamed_store :: "real list entry list" where
  "unnamed_store = [sample_entry [] 0 ''5d41402a'']"

definition fifty_store :: "real list entry list" where
  "fifty_store = map (\<lambda>i. sample_entry ''a.md'' i ''5d41402a'') [0..<50]"


section \<open>document\_parser.py\<close>


section \<open>Grounding of the generated test cases\<close>
















section \<open>The patterns of the extraction\<close>


lemma fence_chars: "py ''```'' = [96, 96, 96]" "py ''```json'' = [96, 96, 96, 106, 115, 111, 110]"
  by (simp_all add: py_def)

lemma dropWhile_spaces: "\<forall>c\<in>set ws. is_space c \<Longrightarrow> \<not> is_space x \<Longrightarrow>
   dropWhile is_space (ws @ x # rest) = x # rest"
  by (induction ws) auto

lemma not_space_96: "\<not> is_space 96"
  by (simp add: is_space_def)

lemma closes_fence: "\<forall>c\<in>set ws. is_space c \<Longrightarrow> closes (ws @ py ''```'' @ post)"
  using dropWhile_spaces [of ws 96 "[96, 96] @ post"]
  by (simp add: closes_def fence_chars not_space_96)

lemma not_closes_body:
  assumes "b \<noteq> []" "\<not> is_space (last b)" "96 \<notin> set b"
  shows "\<not> closes (b @ rest)"
proof -
  have ex: "\<exists>x\<in>set b. \<not> is_space x" using assms(1,2) last_in_set by blast
  then obtain y where "y \<in> set b" "\<not> is_space y" by blast
  then have d: "dropWhile is_space (b @ rest) = dropWhile is_space b @ rest"
    by (rule dropWhile_append1)
  from ex have ne: "dropWhile is_space b \<noteq> []" by (simp add: dropWhile_eq_Nil_conv)
  then obtain x xs where x: "dropWhile is_space b = x # xs" by (cases "dropWhile is_space b") auto
  then have "x \<in> set b" by (metis list.set_intros(1) set_dropWhileD)
  with assms(3) have "x \<noteq> 96" by auto
  with d x show ?thesis by (simp add: closes_def fence_chars)
qed

lemma lazy_group_body:
  assumes "\<forall>c\<in>set ws. is_space c"
  shows "b = [] \<or> \<not> is_space (last b) \<Longrightarrow> 96 \<notin> set b \<Longrightarrow>
         lazy_group (b @ ws @ py ''```'' @ post) = Some b"
proof (induction b)
  case Nil
  have c: "closes (ws @ py ''```'' @ post)" using assms by (rule closes_fence)
  obtain x xs where "ws @ py ''```'' @ post = x # xs"
    by (cases "ws @ py ''```'' @ post") (auto simp: fence_chars)
  with c show ?case by simp
next
  case (Cons c b)
  have "\<not> closes ((c # b) @ ws @ py ''```'' @ post)"
    using Cons.prems by (intro not_closes_body) auto
  moreover have "lazy_group (b @ ws @ py ''```'' @ post) = Some b"
    using Cons by (cases b) auto
  ultimately show ?case by simp
qed

lemma fenced_json_tagged:
  assumes pre: "96 \<notin> set pre" and ws1: "\<forall>c\<in>set ws1. is_space c" and ws2: "\<forall>c\<in>set ws2. is_space c"
    and b: "b \<noteq> []" "\<not> is_space (hd b)" "\<not> is_space (last b)" "96 \<notin> set b"
  shows "fenced_json (pre @ py ''```json'' @ ws1 @ b @ ws2 @ py ''```'' @ post) = Some b"
  using pre
proof (induction pre)
  case Nil
  obtain x xs where bx: "b = x # xs" using b(1) by (cases b) auto
  with b(2) have "dropWhile is_space (ws1 @ b @ ws2 @ py ''```'' @ post) = b @ ws2 @ py ''```'' @ post"
    using dropWhile_spaces [OF ws1, of x] by simp
  moreover have "lazy_group (b @ ws2 @ py ''```'' @ post) = Some b"
    using ws2 b(3,4) by (intro lazy_group_body) auto
  ultimately show ?case by (simp add: fence_chars)
next
  case (Cons p pre)
  then show ?case by (simp add: fence_chars)
qed

lemma bracket_array_greedy:
  assumes "91 \<notin> set pre" "93 \<notin> set post"
  shows "bracket_array (pre @ [91] @ mid @ [93] @ post) = Some ([91] @ mid @ [93])"
  using assms(1)
proof (induction pre)
  case Nil
  have "dropWhile (\<lambda>x. x \<noteq> 93) (rev post @ 93 # rev mid)
          = dropWhile (\<lambda>x. x \<noteq> 93) (93 # rev mid)"
    using assms(2) by (intro dropWhile_append2) auto
  then have "dropWhile (\<lambda>x. x \<noteq> 93) (rev post @ 93 # rev mid) = 93 # rev mid"
    by simp
  then show ?case by (simp add: upto_last_def)
next
  case (Cons p pre)
  then show ?case by simp
qed

section \<open>The sample reply, step by step\<close>


lemma sample_object_shape:
  "sample_object \<noteq> []" "\<not> is_space (hd sample_object)" "\<not> is_space (last sample_object)"
  "96 \<notin> set sample_object"
  by (simp_all add: sample_object_def py_def is_space_def)

lemma sample_loads_object: "sample_loads sample_object = Some (JObject sample_dict)"
  by (simp add: sample_loads_def)

lemma sample_loads_steps: \<open>sample_loads (py ''["s"]'') = Some (JArray [JString (py ''s'')])\<close>
  by (simp add: sample_loads_def sample_object_def py_def)

lemma sample_loads_one: \<open>sample_loads (py ''[1]'') = Some (JArray [JInt 1])\<close>
  by (simp add: sample_loads_def sample_object_def py_def)

lemma sample_loads_x: \<open>sample_loads (py ''x'') = None\<close> \<open>sample_loads (py ''oops'') = None\<close>
  by (simp_all add: sample_loads_def sample_object_def py_def)

lemma sample_reply_fenced: "fenced_json sample_reply = Some sample_object"
  unfolding sample_reply_def
  using fenced_json_tagged [of "[]" "[10]" "[10]" sample_object "[]"] sample_object_shape
  by (simp add: is_space_def)

lemma bare_reply_fenced: "fenced_json bare_reply = None"
  by (simp add: bare_reply_def py_def closes_def is_space_def sample_object_def)

lemma bare_reply_bracket: \<open>bracket_array bare_reply = Some (py ''["s"]'')\<close>
  by (simp add: bare_reply_def py_def upto_last_def sample_object_def)

lemma mixed_reply_fenced: \<open>fenced_json mixed_reply = Some (py ''x'')\<close>
  by (simp add: mixed_reply_def py_def closes_def is_space_def)

lemma mixed_reply_bracket: \<open>bracket_array mixed_reply = Some (py ''[1]'')\<close>
  by (simp add: mixed_reply_def py_def upto_last_def)

lemma oops_reply: "fenced_json (py ''oops'') = None" "bracket_array (py ''oops'') = None"
  by (simp_all add: py_def)












section \<open>Extraction of the JSON payload\<close>

text \<open>
  C3, as the code has it. The text handed to \<open>json.loads\<close> is chosen by the first pattern
  that matches: group 1 of the fence tagged \<open>```json\<close>, else the text from the first \<open>[\<close>
  to the last \<open>]\<close>, else the whole reply. It is parsed once, with no second attempt when
  the parse fails, and an object is promoted to a one-element list. In particular a reply
  holding a block fenced by \<open>```json\<close> and \<open>```\<close>, with no backquote before the block or
  in its body \<open>b\<close>, where \<open>b\<close> parses to an object, gives the one-element list of that
  object.
\<close>

theorem extract_json_first_matching_pattern:
  "(fenced_json r = Some g \<longrightarrow>
      extract_json_from_response json_loads r = map_option promote (json_loads g)) \<and>
   (fenced_json r = None \<and> bracket_array r = Some g \<longrightarrow>
      extract_json_from_response json_loads r = map_option promote (json_loads g)) \<and>
   (fenced_json r = None \<and> bracket_array r = None \<longrightarrow>
      extract_json_from_response json_loads r = map_option promote (json_loads r)) \<and>
   (91 \<notin> set pre \<and> 93 \<notin> set post \<longrightarrow>
      bracket_array (pre @ [91] @ mid @ [93] @ post) = Some ([91] @ mid @ [93])) \<and>
   promote (JObject kvs) = JArray [JObject kvs] \<and>
   (96 \<notin> set pre \<and> (\<forall>c\<in>set lead. is_space c) \<and> (\<forall>c\<in>set trail. is_space c) \<and>
    b \<noteq> [] \<and> \<not> is_space (hd b) \<and> \<not> is_space (last b) \<and> 96 \<notin> set b \<and>
    json_loads b = Some (JObject kvs) \<longrightarrow>
      extract_json_from_response json_loads (pre @ py ''```json'' @ lead @ b @ trail @ py ''```'' @ post)
        = Some (JArray [JObject kvs]))"
proof (intro conjI impI)
  assume "fenced_json r = Some g"
  then show "extract_json_from_response json_loads r = map_option promote (json_loads g)"
    by (simp add: extract_json_from_response_def json_candidate_def map_option_case)
next
  assume "fenced_json r = None \<and> bracket_array r = Some g"
  then show "extract_json_from_response json_loads r = map_option promote (json_loads g)"
    by (simp add: extract_json_from_response_def json_candidate_def map_option_case)
next
  assume "fenced_json r = None \<and> bracket_array r = None"
  then show "extract_json_from_response json_loads r = map_option promote (json_loads r)"
    by (simp add: extract_json_from_response_def json_candidate_def map_option_case)
next
  assume "91 \<notin> set pre \<and> 93 \<notin> set post"
  then show "bracket_array (pre @ [91] @ mid @ [93] @ post) = Some ([91] @ mid @ [93])"
    using bracket_array_greedy by blast
next
  show "promote (JObject kvs) = JArray [JObject kvs]" by simp
next
  assume a: "96 \<notin> set pre \<and> (\<forall>c\<in>set lead. is_space c) \<and> (\<forall>c\<in>set trail. is_space c) \<and>
    b \<noteq> [] \<and> \<not> is_space (hd b) \<and> \<not> is_space (last b) \<and> 96 \<notin> set b \<and>
    json_loads b = Some (JObject kvs)"
  then have "fenced_json (pre @ py ''```json'' @ lead @ b @ trail @ py ''```'' @ post) = Some b"
    by (intro fenced_json_tagged) auto
  with a show "extract_json_from_response json_loads (pre @ py ''```json'' @ lead @ b @ trail @ py ''```'' @ post)
        = Some (JArray [JObject kvs])"
    by (simp add: extract_json_from_response_def json_candidate_def)
qed

theorem extract_json_first_matching_pattern_witness:
  \<open>fenced_json sample_reply = Some sample_object \<and>
   extract_json_from_response sample_loads sample_reply = Some (JArray [JObject sample_dict]) \<and>
   fenced_json bare_reply = None \<and> bracket_array bare_reply = Some (py ''["s"]'') \<and>
   extract_json_from_response sample_loads bare_reply = Some (JArray [JString (py ''s'')]) \<and>
   fenced_json (py ''oops'') = None \<and> bracket_array (py ''oops'') = None \<and>
   extract_json_from_response sample_loads (py ''oops'') = None \<and>
   bracket_array (py ''see '' @ [91] @ py ''1, 2'' @ [93] @ py '' above'') = Some ([91] @ py ''1, 2'' @ [93]) \<and>
   extract_json_from_response sample_loads ([] @ py ''```json'' @ [10] @ sample_object @ [10] @ py ''```'' @ [])
     = Some (JArray [JObject sample_dict])\<close>
proof -
  have n: "91 \<notin> set (py ''see '')" "93 \<notin> set (py '' above'')" "(96::nat) \<notin> set []"
    "\<forall>c\<in>set [10]. is_space c"
    by (simp_all add: py_def is_space_def)
  note t = extract_json_first_matching_pattern [where json_loads = sample_loads]
  show ?thesis
    using t [where r = sample_reply and g = sample_object]
      t [where r = bare_reply and g = \<open>py ''["s"]''\<close>]
      t [where r = "py ''oops''"]
      t [where pre = "py ''see ''" and post = "py '' above''" and mid = "py ''1, 2''"]
      t [where pre = "[]" and kvs = sample_dict and lead = "[10]" and trail = "[10]"
           and b = sample_object and post = "[]"]
      n sample_object_shape sample_reply_fenced bare_reply_fenced bare_reply_bracket oops_reply
      sample_loads_object sample_loads_steps sample_loads_x
    by simp
qed

text \<open>
  C3 as stated fails on two replies. A single object in a fence that has no \<open>json\<close> tag is
  not extracted: the first pattern does not match, the second takes the array of steps inside
  the object, and the result is that list of strings, although the object parses. And a reply
  whose tagged fence holds no JSON gives nothing, although the bracketed array after the fence
  parses: the later patterns are not tried.
\<close>

theorem extract_json_counterexample:
  \<open>extract_json_from_response sample_loads bare_reply = Some (JArray [JString (py ''s'')]) \<and>
   extract_json_from_response sample_loads bare_reply \<noteq> Some (JArray [JObject sample_dict]) \<and>
   sample_loads sample_object = Some (JObject sample_dict) \<and>
   extract_json_from_response sample_loads mixed_reply = None \<and>
   bracket_array mixed_reply = Some (py ''[1]'') \<and>
   sample_loads (py ''[1]'') = Some (JArray [JInt 1])\<close>
  by (simp add: extract_json_from_response_def json_candidate_def bare_reply_fenced
      bare_reply_bracket mixed_reply_fenced mixed_reply_bracket sample_loads_object
      sample_loads_steps sample_loads_one sample_loads_x)

section \<open>Replies that cannot be parsed\<close>

lemma generate_failure_shape:
  "success (generate_test_cases json_loads rag_query q neg) \<or>
   test_cases (generate_test_cases json_loads rag_query q neg) = [] \<and>
   total_cases (generate_test_cases json_loads rag_query q neg) = 0"
  by (simp add: generate_test_cases_def failure_def Let_def split: sum.splits option.splits)

text \<open>
  C4. When the reply holds no text that \<open>json.loads\<close> accepts under any of the three
  patterns, \<open>generate_test_cases\<close> returns the response with \<open>success\<close> false and no test
  case. The function is total: whatever the retrieval, the model and the parser do, raising
  included, it returns a response, and a response that is not a success holds no test case.
\<close>

theorem unparseable_reply_reported:
  assumes "rag_query (enhanced_query user_query include_negative) = Inr rag_result"
    and "\<forall>g. fenced_json (response rag_result) = Some g \<longrightarrow> json_loads g = None"
    and "\<forall>g. bracket_array (response rag_result) = Some g \<longrightarrow> json_loads g = None"
    and "json_loads (response rag_result) = None"
  shows "generate_test_cases json_loads rag_query user_query include_negative =
           \<lparr>success = False, message = py ''Failed to parse test cases from LLM response'',
            test_cases = [], total_cases = 0\<rparr> \<and>
         (success (generate_test_cases json_loads' rag_query' q neg) \<or>
          test_cases (generate_test_cases json_loads' rag_query' q neg) = [] \<and>
          total_cases (generate_test_cases json_loads' rag_query' q neg) = 0)"
proof
  have "json_loads (json_candidate (response rag_result)) = None"
    using assms(2,3,4) by (simp add: json_candidate_def split: option.splits)
  then show "generate_test_cases json_loads rag_query user_query include_negative =
           \<lparr>success = False, message = py ''Failed to parse test cases from LLM response'',
            test_cases = [], total_cases = 0\<rparr>"
    using assms(1)
    by (simp add: generate_test_cases_def extract_json_from_response_def failure_def)
next
  show "success (generate_test_cases json_loads' rag_query' q neg) \<or>
          test_cases (generate_test_cases json_loads' rag_query' q neg) = [] \<and>
          total_cases (generate_test_cases json_loads' rag_query' q neg) = 0"
    by (rule generate_failure_shape)
qed

theorem unparseable_reply_reported_witness:
  "replies (py ''oops'') (enhanced_query (py ''login'') True)
     = Inr \<lparr>response = py ''oops'', retrieved_chunks = sample_chunks\<rparr> \<and>
   fenced_json (py ''oops'') = None \<and> bracket_array (py ''oops'') = None \<and>
   sample_loads (py ''oops'') = None \<and>
   generate_test_cases sample_loads (replies (py ''oops'')) (py ''login'') True =
     \<lparr>success = False, message = py ''Failed to parse test cases from LLM response'',
      test_cases = [], total_cases = 0\<rparr>"
proof -
  have r: "replies (py ''oops'') (enhanced_query (py ''login'') True)
     = Inr \<lparr>response = py ''oops'', retrieved_chunks = sample_chunks\<rparr>"
    by (simp add: replies_def)
  show ?thesis
    using unparseable_reply_reported [where rag_query = "replies (py ''oops'')"
        and user_query = "py ''login''" and include_negative = True
        and rag_result = "\<lparr>response = py ''oops'', retrieved_chunks = sample_chunks\<rparr>"
        and json_loads = sample_loads]
      r oops_reply sample_loads_x
    by simp
qed

section \<open>Retrieval\<close>







text \<open>
  C5. On an empty collection, when the embedding of the query succeeds, \<open>query\<close> returns
  the empty list of matches and raises nothing; the context formatted from no match is the
  sentence \<open>No relevant documentation found.\<close>, not the empty string.
\<close>

theorem empty_collection_query:
  assumes "embed_text query_text = Inr v"
  shows "query embed_text distance [] query_text n_results filter_dict = Inr [] \<and>
         format_context fmt [] = py ''No relevant documentation found.'' \<and>
         format_context fmt [] \<noteq> []"
  using assms
  by (simp add: query_def collection_query_def format_results_def format_context_def py_def)

theorem empty_collection_query_witness:
  "sample_embed_text (py ''discount code'') = Inr [1, 0] \<and>
   query sample_embed_text (\<lambda>u v. 1) [] (py ''discount code'') None (\<lambda>m. True) = Inr [] \<and>
   format_context (\<lambda>x. py ''0.50'') [] = py ''No relevant documentation found.''"
proof -
  have e: "sample_embed_text (py ''discount code'') = Inr [1, 0]"
    by (simp add: sample_embed_text_def)
  from e show ?thesis
    using empty_collection_query [where embed_text = sample_embed_text
        and query_text = "py ''discount code''" and v = "[1, 0]" and distance = "\<lambda>u v. 1"
        and n_results = None and filter_dict = "\<lambda>m. True" and fmt = "\<lambda>x. py ''0.50''"]
    by simp
qed

section \<open>Statistics of the collection\<close>

lemma get_all_documents_set:
  "get_all_documents c =
     sorted_list_of_set ({s. Some s \<in> md_source_document ` e_metadata ` set (take 10000 c)} - {[]})"
proof -
  let ?f = "filter (\<lambda>source. source \<noteq> [])
              (List.map_filter md_source_document (map e_metadata (take 10000 c)))"
  have "set ?f = {s. Some s \<in> md_source_document ` e_metadata ` set (take 10000 c)} - {[]}"
    by (auto simp: map_filter_def image_iff) (metis option.sel)+
  moreover have "sort (remdups ?f) = sorted_list_of_set (set ?f)"
    by (rule sorted_list_of_set_sort_remdups [symmetric])
  ultimately show ?thesis by (simp add: get_all_documents_def)
qed

lemma get_all_documents_all:
  assumes "length c \<le> 10000" and "\<forall>e\<in>set c. md_source_document (e_metadata e) \<noteq> Some []"
  shows "get_all_documents c = all_source_documents c"
proof -
  have "filter (\<lambda>source. source \<noteq> []) (List.map_filter md_source_document (map e_metadata c))
          = List.map_filter md_source_document (map e_metadata c)"
    using assms(2) by (auto simp: map_filter_def filter_id_conv)
  with assms(1) show ?thesis
    by (simp add: get_all_documents_def all_source_documents_def)
qed

lemma get_all_documents_Nil: "get_all_documents [] = []"
  by (simp add: get_all_documents_def map_filter_simps)

text \<open>
  C9, as the code has it. \<open>get_stats\<close> reports the number of stored chunks, and as
  documents the sorted, deduplicated non-empty \<open>source_document\<close> values of the first
  10000 stored chunks; on a collection of at most 10000 chunks with no empty name that is
  every document named by a stored chunk. After \<open>clear_collection\<close>, whatever the
  collection held, it reports no chunk and no document.
\<close>

theorem stats_of_collection:
  "total_chunks (get_stats c) = length c \<and>
   total_documents (get_stats c) = length (documents (get_stats c)) \<and>
   documents (get_stats c) =
     sorted_list_of_set ({s. Some s \<in> md_source_document ` e_metadata ` set (take 10000 c)} - {[]}) \<and>
   (length c \<le> 10000 \<and> (\<forall>e\<in>set c. md_source_document (e_metadata e) \<noteq> Some []) \<longrightarrow>
      documents (get_stats c) = all_source_documents c) \<and>
   total_chunks (get_stats (clear_collection c)) = 0 \<and>
   documents (get_stats (clear_collection c)) = []"
proof (intro conjI impI)
  show "documents (get_stats c) =
     sorted_list_of_set ({s. Some s \<in> md_source_document ` e_metadata ` set (take 10000 c)} - {[]})"
    using get_all_documents_set [of c] by (simp add: get_stats_def Let_def)
  assume "length c \<le> 10000 \<and> (\<forall>e\<in>set c. md_source_document (e_metadata e) \<noteq> Some [])"
  then show "documents (get_stats c) = all_source_documents c"
    using get_all_documents_all [of c] by (simp add: get_stats_def Let_def)
qed (simp_all add: get_stats_def Let_def clear_collection_def get_all_documents_Nil)

lemma sample_sources:
  "List.map_filter md_source_document (map (e_metadata \<circ> (\<lambda>i. sample_entry name i h)) xs)
     = map (\<lambda>i. py name) xs"
  by (induction xs) (simp_all add: map_filter_simps sample_entry_def create_metadata_dict_def)

lemma filter_const: "filter P (map (\<lambda>i. k) xs) = (if P k then map (\<lambda>i. k) xs else [])"
  by (induction xs) auto

lemma remdups_const: "xs \<noteq> [] \<Longrightarrow> remdups (map (\<lambda>i. k) xs) = [k]"
proof (induction xs)
  case Nil
  then show ?case by simp
next
  case (Cons x xs)
  then show ?case by (cases xs) auto
qed

lemma remdups_snoc: "y \<notin> set xs \<Longrightarrow> remdups (xs @ [y]) = remdups xs @ [y]"
  by (induction xs) auto

lemma a_md: "py ''a.md'' \<noteq> []" "py ''b.md'' \<noteq> py ''a.md''"
  by (simp_all add: py_def)

lemma fifty_docs: "all_source_documents fifty_store = [py ''a.md'']"
  by (simp add: all_source_documents_def fifty_store_def sample_sources remdups_const)

lemma fifty_length: "length fifty_store = 50"
  by (simp add: fifty_store_def)

lemma fifty_named: "\<forall>e\<in>set fifty_store. md_source_document (e_metadata e) \<noteq> Some []"
  by (auto simp: fifty_store_def sample_entry_def create_metadata_dict_def py_def)

theorem stats_of_collection_witness:
  "length fifty_store = 50 \<and>
   documents (get_stats fifty_store) = [py ''a.md''] \<and>
   total_chunks (get_stats fifty_store) = 50 \<and>
   total_chunks (get_stats (clear_collection fifty_store)) = 0 \<and>
   documents (get_stats (clear_collection fifty_store)) = []"
proof -
  note t = stats_of_collection [of fifty_store]
  from t have "length fifty_store \<le> 10000 \<and>
      (\<forall>e\<in>set fifty_store. md_source_document (e_metadata e) \<noteq> Some []) \<longrightarrow>
      documents (get_stats fifty_store) = all_source_documents fifty_store"
    by blast
  moreover have "length fifty_store \<le> 10000" by (simp add: fifty_length)
  ultimately have "documents (get_stats fifty_store) = all_source_documents fifty_store"
    using fifty_named by blast
  moreover from t have "total_chunks (get_stats fifty_store) = length fifty_store"
    and "total_chunks (get_stats (clear_collection fifty_store)) = 0"
    and "documents (get_stats (clear_collection fifty_store)) = []"
    by blast+
  ultimately show ?thesis by (simp add: fifty_docs fifty_length)
qed

lemma big_store_take: "take 10000 big_store = map (\<lambda>i. sample_entry ''a.md'' i ''5d41402a'') [0..<10000]"
  by (simp add: big_store_def)

text \<open>
  C9 as stated fails on two collections. With 10000 chunks of \<open>a.md\<close> stored before one
  chunk of \<open>b.md\<close>, the statistics count 10001 chunks and list \<open>a.md\<close> alone. With
  one chunk whose document has the empty name, they list no document.
\<close>

theorem stats_counterexample:
  "documents (get_stats big_store) = [py ''a.md''] \<and>
   all_source_documents big_store = [py ''a.md'', py ''b.md''] \<and>
   total_chunks (get_stats big_store) = 10001 \<and>
   documents (get_stats unnamed_store) = [] \<and>
   all_source_documents unnamed_store = [[]]"
proof (intro conjI)
  show "documents (get_stats big_store) = [py ''a.md'']"
    by (simp add: get_stats_def Let_def get_all_documents_def big_store_take sample_sources
        filter_const a_md remdups_const)
  have "List.map_filter md_source_document (map e_metadata big_store)
          = map (\<lambda>i. py ''a.md'') [0..<10000] @ [py ''b.md'']"
    by (simp add: big_store_def map_filter_def sample_entry_def create_metadata_dict_def
        comp_def)
  moreover have "remdups (map (\<lambda>i. py ''a.md'') [0..<10000::nat] @ [py ''b.md''])
      = [py ''a.md'', py ''b.md'']"
  proof -
    have "py ''b.md'' \<notin> set (map (\<lambda>i. py ''a.md'') [0..<10000::nat])"
      using a_md by auto
    then show ?thesis
      using remdups_const [of "[0..<10000::nat]" "py ''a.md''"] by (simp add: remdups_snoc)
  qed
  ultimately show "all_source_documents big_store = [py ''a.md'', py ''b.md'']"
    by (simp add: all_source_documents_def) (simp add: py_def)
  show "total_chunks (get_stats big_store) = 10001"
    by (simp add: get_stats_def Let_def big_store_def)
  show "documents (get_stats unnamed_store) = []"
    by (simp add: get_stats_def Let_def get_all_documents_def unnamed_store_def sample_entry_def
        create_metadata_dict_def map_filter_simps py_def)
  show "all_source_documents unnamed_store = [[]]"
    by (simp add: all_source_documents_def unnamed_store_def sample_entry_def
        create_metadata_dict_def map_filter_simps py_def)
qed

section \<open>Ingestion and chunk ids\<close>

lemma settled_store_one: "settled pol (store_one pol c e) e"
  by (induction c) (auto simp: settled_def split: on_existing.splits)

lemma find_store_other:
  "k \<noteq> e_id e \<Longrightarrow> find (\<lambda>x. e_id x = k) (store_one pol c e) = find (\<lambda>x. e_id x = k) c"
  by (induction c) (auto split: on_existing.splits)

lemma settled_store_other:
  "e_id e' \<noteq> e_id e \<Longrightarrow> settled pol c e' \<Longrightarrow> settled pol (store_one pol c e) e'"
  by (simp add: settled_def find_store_other split: on_existing.splits)

lemma settled_fixed: "settled pol c e \<Longrightarrow> store_one pol c e = c"
  by (induction c) (auto simp: settled_def split: on_existing.splits if_splits)

lemma settled_foldl:
  "e_id e \<notin> e_id ` set es \<Longrightarrow> settled pol c e \<Longrightarrow> settled pol (foldl (store_one pol) c es) e"
proof (induction es arbitrary: c)
  case Nil
  then show ?case by simp
next
  case (Cons x es)
  then have "settled pol (store_one pol c x) e"
    by (intro settled_store_other) auto
  with Cons show ?case by simp
qed

lemma all_settled:
  "distinct (map e_id es) \<Longrightarrow> e \<in> set es \<Longrightarrow> settled pol (foldl (store_one pol) c es) e"
proof (induction es arbitrary: c)
  case Nil
  then show ?case by simp
next
  case (Cons x es)
  show ?case
  proof (cases "e = x")
    case True
    have "settled pol (foldl (store_one pol) (store_one pol c x) es) x"
      using Cons.prems(1) by (intro settled_foldl settled_store_one) auto
    with True show ?thesis by simp
  next
    case False
    with Cons show ?thesis by simp
  qed
qed

lemma foldl_fixed:
  "(\<And>e. e \<in> set es \<Longrightarrow> store_one pol c e = c) \<Longrightarrow> foldl (store_one pol) c es = c"
  by (induction es) auto

lemma store_twice:
  assumes "distinct (map e_id es)"
  shows "foldl (store_one pol) (foldl (store_one pol) c es) es = foldl (store_one pol) c es"
  using assms by (intro foldl_fixed settled_fixed all_settled)

lemma collection_add_twice:
  assumes "collection_add pol c ids embeddings docs mds = Inr c'"
  shows "collection_add pol c' ids embeddings docs mds = Inr c'"
proof -
  from assms have len: "length embeddings = length ids" "length docs = length ids"
    "length mds = length ids" and d: "distinct ids"
    and c': "c' = foldl (store_one pol) c (entries_of ids embeddings docs mds)"
    by (auto simp: collection_add_def split: if_splits)
  have "map e_id (entries_of ids embeddings docs mds) = ids"
    using len unfolding entries_of_def
    by (induction ids arbitrary: embeddings docs mds)
       (auto simp: length_Suc_conv)
  with d have "distinct (map e_id (entries_of ids embeddings docs mds))" by simp
  then have "foldl (store_one pol) c' (entries_of ids embeddings docs mds) = c'"
    unfolding c' by (rule store_twice)
  with len d show ?thesis by (simp add: collection_add_def)
qed

lemma add_documents_twice:
  "add_documents md5_hex split_text embed_batch pol
     (snd (add_documents md5_hex split_text embed_batch pol c docs)) docs
   = add_documents md5_hex split_text embed_batch pol c docs"
  unfolding add_documents_def Let_def
  by (auto split: sum.splits simp: collection_add_twice)

lemma store_one_ids: "e_id ` set (store_one pol c e) = insert (e_id e) (e_id ` set c)"
  by (induction c) (auto split: on_existing.splits)

lemma store_one_distinct: "distinct (map e_id c) \<Longrightarrow> distinct (map e_id (store_one pol c e))"
proof (induction c)
  case Nil
  then show ?case by simp
next
  case (Cons x c)
  have "e_id ` set (store_one pol c e) = insert (e_id e) (e_id ` set c)" by (rule store_one_ids)
  with Cons show ?case by (auto split: on_existing.splits)
qed

lemma foldl_store_distinct:
  "distinct (map e_id c) \<Longrightarrow> distinct (map e_id (foldl (store_one pol) c es))"
  by (induction es arbitrary: c) (auto simp: store_one_distinct)

lemma add_documents_distinct:
  "distinct (map e_id c) \<Longrightarrow>
   distinct (map e_id (snd (add_documents md5_hex split_text embed_batch pol c docs)))"
  unfolding add_documents_def Let_def
  by (auto split: sum.splits if_splits simp: collection_add_def foldl_store_distinct)

lemma doc_rows_ids:
  "map (\<lambda>(i, chunk, m). i) (doc_rows md5_hex split_text doc) =
     (case doc_content doc of
        None \<Rightarrow> []
      | Some c \<Rightarrow> if c = [] then []
                  else map (\<lambda>(i, chunk). generate_chunk_id md5_hex chunk i)
                         (enumerate 0 (split_text c)))"
  by (auto simp: doc_rows_def Let_def split: option.splits)


lemma doc_rows_nth:
  assumes "doc_content d = Some c" "c \<noteq> []" "i < length (split_text c)"
  shows "fst (doc_rows md5_hex split_text d ! i) = generate_chunk_id md5_hex (split_text c ! i) i"
  using assms by (simp add: doc_rows_def Let_def nth_enumerate_eq)

lemma hello_id: "generate_chunk_id sample_md5 (py ''hello'') 0 = py ''chunk_0_5d41402a''"
  by (simp add: generate_chunk_id_def sample_md5_def str_nat.simps py_def)

lemma hello_rows:
  "doc_rows sample_md5 sample_split (sample_doc name ''hello'') =
     [(py ''chunk_0_5d41402a'', py ''hello'', create_metadata_dict (py name) 0 1 (py ''md'') 5)]"
proof -
  have "py ''hello'' \<noteq> []" by (simp add: py_def)
  then show ?thesis
    by (simp add: doc_rows_def sample_doc_def sample_split_def hello_id)
qed

lemma hello_added:
  "add_documents sample_md5 sample_split sample_embed_batch pol [] [sample_doc ''a.md'' ''hello''] =
     (Inr \<lparr>added = True, add_message = py ''Documents added successfully'', added_chunks = 1,
           added_documents = 1\<rparr>,
      [\<lparr>e_id = py ''chunk_0_5d41402a'', e_embedding = [1, 0], e_document = py ''hello'',
        e_metadata = create_metadata_dict (py ''a.md'') 0 1 (py ''md'') 5\<rparr>])"
  by (simp add: add_documents_def hello_rows sample_embed_batch_def collection_add_def
      entries_of_def)

text \<open>
  C2. The ids \<open>add_documents\<close> hands to the database are a function of the chunk texts and
  their positions alone. Calling it a second time with the same documents returns what the
  first call returned and leaves the collection as the first call left it, whether the
  database keeps or replaces an entry whose id is already stored; a collection with one
  entry per id still has one entry per id afterwards.
\<close>

theorem reingestion_idempotent:
  "map (\<lambda>(i, chunk, m). i) (doc_rows md5_hex split_text doc) =
     (case doc_content doc of
        None \<Rightarrow> []
      | Some c \<Rightarrow> if c = [] then []
                  else map (\<lambda>(i, chunk). generate_chunk_id md5_hex chunk i)
                         (enumerate 0 (split_text c))) \<and>
   add_documents md5_hex split_text embed_batch pol
     (snd (add_documents md5_hex split_text embed_batch pol c docs)) docs
     = add_documents md5_hex split_text embed_batch pol c docs \<and>
   (distinct (map e_id c) \<longrightarrow>
      distinct (map e_id (snd (add_documents md5_hex split_text embed_batch pol c docs))))"
  using doc_rows_ids [of md5_hex split_text doc]
    add_documents_twice [of md5_hex split_text embed_batch pol c docs]
    add_documents_distinct [of c md5_hex split_text embed_batch pol docs]
  by blast

theorem reingestion_idempotent_witness:
  "snd (add_documents sample_md5 sample_split sample_embed_batch KeepStored []
          [sample_doc ''a.md'' ''hello'']) =
     [\<lparr>e_id = py ''chunk_0_5d41402a'', e_embedding = [1, 0], e_document = py ''hello'',
       e_metadata = create_metadata_dict (py ''a.md'') 0 1 (py ''md'') 5\<rparr>] \<and>
   add_documents sample_md5 sample_split sample_embed_batch KeepStored
     [\<lparr>e_id = py ''chunk_0_5d41402a'', e_embedding = [1, 0], e_document = py ''hello'',
       e_metadata = create_metadata_dict (py ''a.md'') 0 1 (py ''md'') 5\<rparr>]
     [sample_doc ''a.md'' ''hello''] =
     (Inr \<lparr>added = True, add_message = py ''Documents added successfully'', added_chunks = 1,
           added_documents = 1\<rparr>,
      [\<lparr>e_id = py ''chunk_0_5d41402a'', e_embedding = [1, 0], e_document = py ''hello'',
        e_metadata = create_metadata_dict (py ''a.md'') 0 1 (py ''md'') 5\<rparr>]) \<and>
   distinct (map e_id ([] :: real list entry list)) \<and>
   distinct (map e_id (snd (add_documents sample_md5 sample_split sample_embed_batch KeepStored []
          [sample_doc ''a.md'' ''hello''])))"
  using reingestion_idempotent [of sample_md5 sample_split "sample_doc ''a.md'' ''hello''"
      sample_embed_batch KeepStored "[]" "[sample_doc ''a.md'' ''hello'']"]
  by (simp add: hello_added)

text \<open>
  C10. The id of a chunk is computed from its text and its index in its own document; the
  document plays no part. Two documents with the same chunk text at the same index get the
  same id for that chunk, whatever their names.
\<close>

theorem chunk_id_ignores_document:
  assumes "doc_content doc_a = Some text_a" and "text_a \<noteq> []" and "doc_content doc_b = Some text_b" and "text_b \<noteq> []"
    and "i < length (split_text text_a)" and "i < length (split_text text_b)"
    and "split_text text_a ! i = split_text text_b ! i"
  shows "fst (doc_rows md5_hex split_text doc_a ! i) = fst (doc_rows md5_hex split_text doc_b ! i) \<and>
         fst (doc_rows md5_hex split_text doc_a ! i) = generate_chunk_id md5_hex (split_text text_a ! i) i"
  using assms by (simp add: doc_rows_nth)

theorem chunk_id_ignores_document_witness:
  "doc_content (sample_doc ''a.md'' ''hello'') = Some (py ''hello'') \<and>
   doc_content (sample_doc ''b.md'' ''hello'') = Some (py ''hello'') \<and>
   doc_metadata (sample_doc ''a.md'' ''hello'') \<noteq> doc_metadata (sample_doc ''b.md'' ''hello'') \<and>
   sample_split (py ''hello'') ! 0 = py ''hello'' \<and>
   fst (doc_rows sample_md5 sample_split (sample_doc ''a.md'' ''hello'') ! 0) = py ''chunk_0_5d41402a'' \<and>
   fst (doc_rows sample_md5 sample_split (sample_doc ''b.md'' ''hello'') ! 0) = py ''chunk_0_5d41402a''"
proof -
  have h: "py ''hello'' \<noteq> []" by (simp add: py_def)
  have c: "doc_content (sample_doc ''a.md'' ''hello'') = Some (py ''hello'')"
    "doc_content (sample_doc ''b.md'' ''hello'') = Some (py ''hello'')"
    by (simp_all add: sample_doc_def)
  have l: "0 < length (sample_split (py ''hello''))" by (simp add: sample_split_def)
  have n: "doc_metadata (sample_doc ''a.md'' ''hello'') \<noteq> doc_metadata (sample_doc ''b.md'' ''hello'')"
    by (simp add: sample_doc_def py_def)
  show ?thesis
    using chunk_id_ignores_document [where split_text = sample_split and md5_hex = sample_md5
        and doc_a = "sample_doc ''a.md'' ''hello''" and doc_b = "sample_doc ''b.md'' ''hello''"
        and text_a = "py ''hello''" and text_b = "py ''hello''" and i = 0]
      c h l n
    by (simp add: hello_rows sample_split_def)
qed

section \<open>Normalisation\<close>













text \<open>
  C8. \<open>clean_text\<close> is not idempotent. It collapses white space before it removes the
  control characters, so two spaces with a control character between them are left side by
  side; on the text \<open>a\<close>, space, U+0000, space, \<open>b\<close> the first pass returns \<open>a\<close>, two
  spaces, \<open>b\<close>, and a second pass removes one of the two.
\<close>

theorem clean_text_twice_differs:
  "clean_text (py ''a '' @ [0] @ py '' b'') = py ''a  b'' \<and>
   clean_text (clean_text (py ''a '' @ [0] @ py '' b'')) = py ''a b''"
  by (simp add: clean_text_def strip_def is_space_def is_control_def py_def)

end
